theory Spec2Isabelle
  imports Complex_Main "HOL-Library.Multiset" "HOL-Library.Log_Nat"
begin

section \<open>Numbers\<close>

text \<open>
  JavaScript numbers are modelled as exact reals: a decimal literal such as \<open>0.3\<close> is
  the fraction \<open>3 / 10\<close>, sums and quotients are not rounded, and \<open>NaN\<close> and the
  infinities are not values of the model. The one place where the rounding of a double
  decides the result, the accuracy percentage of the typing test, is modelled with the
  rounding written out.
\<close>

section \<open>Results page: overall risk (src/frontend/src/pages/Results.tsx)\<close>

subsection \<open>Stored results\<close>

text \<open>
  \<open>interface TypingResults\<close> (lines 7--12); an optional field is an \<open>option\<close>, with
  \<open>None\<close> for \<open>undefined\<close>. The untyped \<open>features\<close> blob is not read by the risk
  calculation and is left out.
\<close>

record TypingResults =
  typing_session_id :: string
  score_0to1 :: "real option"
  band :: "string option"

text \<open>
  The parsed voice analysis, with the fields the page reads from it:
  \<open>risk_assessment.overall_risk_score\<close>, \<open>risk_assessment.confidence\<close> and
  \<open>risk_assessment.risk_category\<close>.
\<close>

record RiskAssessment =
  overall_risk_score :: "real option"
  confidence :: "real option"
  risk_category :: "string option"

record VoiceAnalysis =
  risk_assessment :: "RiskAssessment option"

text \<open>
  \<open>llm_analysis.raw_response\<close> is either a string that still has to be parsed or an
  object that is used as it is (lines 82--93).
\<close>

datatype RawResponse = RawString string | RawObject VoiceAnalysis

record LlmAnalysis =
  raw_response :: "RawResponse option"

record VoiceResults =
  voice_session_id :: string
  llm_analysis :: "LlmAnalysis option"

subsection \<open>Component state\<close>

text \<open>
  The two state cells written by \<open>calculateOverallRisk\<close>, with their initial values
  \<open>useState<number>(0)\<close> and \<open>useState<string>("unknown")\<close> (lines 25--26).
\<close>

record ResultsState =
  overallRisk :: real
  riskCategory :: string

definition initialResultsState :: ResultsState where
  "initialResultsState = \<lparr>overallRisk = 0, riskCategory = ''unknown''\<rparr>"

subsection \<open>calculateOverallRisk (lines 71--117)\<close>

text \<open>
  JavaScript truthiness of \<open>raw_response\<close>: the empty string is falsy, every object is
  truthy.
\<close>

definition truthy_raw :: "RawResponse \<Rightarrow> bool" where
  "truthy_raw raw = (case raw of RawString s \<Rightarrow> s \<noteq> [] | RawObject _ \<Rightarrow> True)"

text \<open>
  Lines 81--93. The two platform functions are parameters: \<open>fence\<close> is the regular
  expression match for a fenced JSON block (\<open>None\<close> when there is no match, otherwise
  capture group 1), and \<open>json_parse\<close> is \<open>JSON.parse\<close>, with \<open>None\<close> for a thrown
  \<open>SyntaxError\<close>. A parsed value without a \<open>risk_assessment\<close> property is a
  \<open>VoiceAnalysis\<close> whose \<open>risk_assessment\<close> is \<open>None\<close>.
\<close>

definition parse_raw_response ::
  "(string \<Rightarrow> string option) \<Rightarrow> (string \<Rightarrow> VoiceAnalysis option) \<Rightarrow> RawResponse
     \<Rightarrow> VoiceAnalysis option" where
  "parse_raw_response fence json_parse raw =
     (case raw of
        RawString s \<Rightarrow>
          (case fence s of
             Some jsonMatch \<Rightarrow> json_parse jsonMatch
           | None \<Rightarrow> json_parse s)
      | RawObject obj \<Rightarrow> Some obj)"

text \<open>
  Lines 79--101: the voice score that is pushed, if any. An exception thrown inside the
  \<open>try\<close> block is caught and nothing is pushed.
\<close>

definition voice_risk ::
  "(string \<Rightarrow> string option) \<Rightarrow> (string \<Rightarrow> VoiceAnalysis option) \<Rightarrow> VoiceResults option
     \<Rightarrow> real option" where
  "voice_risk fence json_parse voice =
     (case voice of
        None \<Rightarrow> None
      | Some v \<Rightarrow>
          (case llm_analysis v of
             None \<Rightarrow> None
           | Some l \<Rightarrow>
               (case raw_response l of
                  None \<Rightarrow> None
                | Some raw \<Rightarrow>
                    if truthy_raw raw then
                      (case parse_raw_response fence json_parse raw of
                         None \<Rightarrow> None
                       | Some parsed \<Rightarrow>
                           (case risk_assessment parsed of
                              None \<Rightarrow> None
                            | Some ra \<Rightarrow> overall_risk_score ra))
                    else None)))"

text \<open>Lines 74--76: the typing score that is pushed, if any.\<close>

definition typing_risk :: "TypingResults option \<Rightarrow> real option" where
  "typing_risk typing = (case typing of None \<Rightarrow> None | Some t \<Rightarrow> score_0to1 t)"

text \<open>Lines 72--101: the array \<open>risks\<close> when the two pushes are done.\<close>

definition collect_risks ::
  "(string \<Rightarrow> string option) \<Rightarrow> (string \<Rightarrow> VoiceAnalysis option) \<Rightarrow> TypingResults option
     \<Rightarrow> VoiceResults option \<Rightarrow> real list" where
  "collect_risks fence json_parse typing voice =
     (case typing_risk typing of None \<Rightarrow> [] | Some s \<Rightarrow> [s]) @
     (case voice_risk fence json_parse voice of None \<Rightarrow> [] | Some s \<Rightarrow> [s])"

text \<open>Lines 107--115: the chain of comparisons that names the band.\<close>

definition risk_band :: "real \<Rightarrow> string" where
  "risk_band avgRisk =
     (if avgRisk < 0.3 then ''low''
      else if avgRisk < 0.5 then ''moderate''
      else if avgRisk < 0.7 then ''elevated''
      else ''high'')"

text \<open>
  Lines 103--116: \<open>risks.reduce((a, b) => a + b, 0) / risks.length\<close> and the two state
  updates; with an empty array nothing is written.
\<close>

definition fuse_risks :: "real list \<Rightarrow> ResultsState \<Rightarrow> ResultsState" where
  "fuse_risks risks st =
     (if length risks > 0 then
        (let avgRisk = foldl (\<lambda>a b. a + b) 0 risks / real (length risks)
         in st\<lparr>overallRisk := avgRisk, riskCategory := risk_band avgRisk\<rparr>)
      else st)"

definition calculateOverallRisk ::
  "(string \<Rightarrow> string option) \<Rightarrow> (string \<Rightarrow> VoiceAnalysis option) \<Rightarrow> TypingResults option
     \<Rightarrow> VoiceResults option \<Rightarrow> ResultsState \<Rightarrow> ResultsState" where
  "calculateOverallRisk fence json_parse typing voice st =
     fuse_risks (collect_risks fence json_parse typing voice) st"

text \<open>
  The confidence-weighted mean of the specification, over (value, confidence) pairs:
  \<open>\<Sigma>(value\<sqdot>confidence) / \<Sigma>(confidence)\<close>. It is not part of the source; the
  source's mean is compared with it.
\<close>

definition spec_weighted_mean :: "(real \<times> real) list \<Rightarrow> real" where
  "spec_weighted_mean scores =
     sum_list (map (\<lambda>(v, c). v * c) scores) / sum_list (map snd scores)"

text \<open>
  Stand-ins for the two platform functions on inputs whose \<open>raw_response\<close> is already
  an object, so that neither is called: no fenced block is found, and no string parses.
\<close>

definition no_fence :: "string \<Rightarrow> string option" where
  "no_fence s = None"

definition no_json :: "string \<Rightarrow> VoiceAnalysis option" where
  "no_json s = None"

text \<open>
  Stored results used as concrete inputs: a typing result with a score, and a voice
  result whose \<open>raw_response\<close> is an object with a score \<open>s\<close> and a confidence \<open>c\<close>.
\<close>

definition typing_with_score :: "real \<Rightarrow> TypingResults" where
  "typing_with_score s =
     \<lparr>typing_session_id = ''t1'', score_0to1 = Some s, band = None\<rparr>"

definition voice_with_score :: "real \<Rightarrow> real \<Rightarrow> VoiceResults" where
  "voice_with_score s c =
     \<lparr>voice_session_id = ''v1'',
      llm_analysis = Some \<lparr>raw_response = Some (RawObject
        \<lparr>risk_assessment = Some
           \<lparr>overall_risk_score = Some s, confidence = Some c, risk_category = None\<rparr>\<rparr>)\<rparr>\<rparr>"

section \<open>Blink tracker (useBlinkTracker, src/frontend/src/pages/Research.tsx)\<close>

text \<open>\<open>interface BlinkData\<close> (lines 853--859).\<close>

record BlinkData =
  blinkCount :: nat
  duration :: real
  blinkTimestamps :: "real list"
  earValues :: "real list"
  startTime :: real

text \<open>The two refs of the hook that the frame callback mutates (lines 877--885).\<close>

record BlinkTracker =
  blinkData :: BlinkData
  consecutiveClosedFrames :: nat

definition EAR_THRESHOLD :: real where
  "EAR_THRESHOLD = 0.25"

definition CONSEC_FRAMES :: nat where
  "CONSEC_FRAMES = 2"

text \<open>The reset done by \<open>startTracking\<close> (lines 998--1007) at time \<open>now\<close>.\<close>

definition startTracking_reset :: "real \<Rightarrow> BlinkTracker" where
  "startTracking_reset now =
     \<lparr>blinkData = \<lparr>blinkCount = 0, duration = 0, blinkTimestamps = [], earValues = [],
                    startTime = now\<rparr>,
      consecutiveClosedFrames = 0\<rparr>"

text \<open>
  Lines 939--955 of \<open>onResults\<close>: what one frame does once its average EAR is known.
  \<open>now\<close> is the value of \<open>performance.now() / 1000\<close> read when a blink is recorded.
\<close>

definition process_avgEAR :: "real \<Rightarrow> real \<Rightarrow> BlinkTracker \<Rightarrow> BlinkTracker" where
  "process_avgEAR avgEAR now t =
     (let d = (blinkData t)\<lparr>earValues := earValues (blinkData t) @ [avgEAR]\<rparr>
      in if avgEAR < EAR_THRESHOLD then
           t\<lparr>blinkData := d, consecutiveClosedFrames := consecutiveClosedFrames t + 1\<rparr>
         else if consecutiveClosedFrames t \<ge> CONSEC_FRAMES then
           t\<lparr>blinkData := d\<lparr>blinkCount := blinkCount d + 1,
                              blinkTimestamps := blinkTimestamps d @ [now]\<rparr>,
             consecutiveClosedFrames := 0\<rparr>
         else
           t\<lparr>blinkData := d, consecutiveClosedFrames := 0\<rparr>)"

text \<open>
  \<open>onResults\<close> (lines 921--956) with its guard: an inactive tracker or a frame without
  a face returns at once. A frame with a face is given by its average EAR (\<open>None\<close> when
  no face was found).
\<close>

definition onResults :: "bool \<Rightarrow> real option \<Rightarrow> real \<Rightarrow> BlinkTracker \<Rightarrow> BlinkTracker" where
  "onResults isActive face now t =
     (case face of
        None \<Rightarrow> t
      | Some avgEAR \<Rightarrow> if \<not> isActive then t else process_avgEAR avgEAR now t)"

text \<open>A sequence of samples \<open>(avgEAR, now)\<close>, processed in order.\<close>

definition process_samples :: "(real \<times> real) list \<Rightarrow> BlinkTracker \<Rightarrow> BlinkTracker" where
  "process_samples samples t = foldl (\<lambda>s (avgEAR, now). process_avgEAR avgEAR now s) t samples"

text \<open>
  The length of the run of below-threshold samples that ends a sequence of EAR values:
  the samples immediately before the next one.
\<close>

definition closed_run :: "real list \<Rightarrow> nat" where
  "closed_run ears = length (takeWhile (\<lambda>e. e < EAR_THRESHOLD) (rev ears))"

section \<open>Blink risk (src/frontend/BLINK\_DETECTION\_ALGORITHM.md, Risk Calculation)\<close>

text \<open>
  Modelled from the spec: the analyser behind \<open>/api/blink/analyze\<close>, which computes the
  blink risk, is not among the source files. The specification gives
  \<open>riskValue = clamp01((20 - blinkRatePerMinute) / 15)\<close>; the repository's note writes the
  same formula as \<open>blinkRisk = max(0.0, min(1.0, (20 - blinkRate) / 15))\<close> (line 101),
  which is the form taken here.
\<close>

definition blinkRisk :: "real \<Rightarrow> real" where
  "blinkRisk blinkRate = max 0.0 (min 1.0 ((20 - blinkRate) / 15))"

text \<open>
  \<open>clamp01\<close> as the specification names it, by cases; \<open>blinkRisk\<close> is compared with it.
\<close>

definition clamp01 :: "real \<Rightarrow> real" where
  "clamp01 x = (if x < 0 then 0 else if 1 < x then 1 else x)"

section \<open>Typing test (src/unnamed/part\_000)\<close>

subsection \<open>The keystroke channel\<close>

text \<open>
  The browser's WebSocket, as far as the component uses it: its \<open>readyState\<close> and the
  messages handed to an open channel, oldest first.
\<close>

datatype ReadyState = CONNECTING | OPEN | CLOSING | CLOSED

datatype ClientMessage =
    EndMessage
  | KeyMessage string string real

datatype WsError = InvalidStateError

record WebSocket =
  readyState :: ReadyState
  sent :: "ClientMessage list"

text \<open>
  \<open>ws.send\<close> of the platform: it throws while the socket is still connecting, transmits
  on an open socket, and drops the data without an exception once the socket is closing
  or closed.
\<close>

definition ws_send :: "ClientMessage \<Rightarrow> WebSocket \<Rightarrow> WsError + WebSocket" where
  "ws_send m ws =
     (case readyState ws of
        CONNECTING \<Rightarrow> Inl InvalidStateError
      | OPEN \<Rightarrow> Inr (ws\<lparr>sent := sent ws @ [m]\<rparr>)
      | CLOSING \<Rightarrow> Inr ws
      | CLOSED \<Rightarrow> Inr ws)"

text \<open>\<open>ws.close()\<close> of the platform: a socket that is not yet closed starts closing.\<close>

definition ws_close :: "WebSocket \<Rightarrow> WebSocket" where
  "ws_close ws =
     (case readyState ws of
        CONNECTING \<Rightarrow> ws\<lparr>readyState := CLOSING\<rparr>
      | OPEN \<Rightarrow> ws\<lparr>readyState := CLOSING\<rparr>
      | CLOSING \<Rightarrow> ws
      | CLOSED \<Rightarrow> ws)"

text \<open>The cleanup of the WebSocket effect, run on unmount (lines 73--78).\<close>

definition websocket_cleanup :: "WebSocket \<Rightarrow> WsError + WebSocket" where
  "websocket_cleanup ws =
     (if readyState ws = OPEN then
        (case ws_send EndMessage ws of
           Inl e \<Rightarrow> Inl e
         | Inr ws' \<Rightarrow> Inr (ws_close ws'))
      else Inr (ws_close ws))"

text \<open>
  The state the timer callback touches: \<open>timeLeft\<close>, \<open>isActive\<close>, \<open>isComplete\<close> and
  \<open>wsRef.current\<close> (\<open>None\<close> for \<open>null\<close>).
\<close>

record TimerState =
  timeLeft :: int
  isActive :: bool
  isComplete :: bool
  wsRef :: "WebSocket option"

text \<open>The updater passed to \<open>setTimeLeft\<close> by the interval callback (lines 86--97).\<close>

definition timer_tick :: "TimerState \<Rightarrow> WsError + TimerState" where
  "timer_tick s =
     (if timeLeft s \<le> 1 then
        (let s1 = s\<lparr>isActive := False, isComplete := True\<rparr>
         in case wsRef s1 of
              None \<Rightarrow> Inr (s1\<lparr>timeLeft := 0\<rparr>)
            | Some ws \<Rightarrow>
                if readyState ws = OPEN then
                  (case ws_send EndMessage ws of
                     Inl e \<Rightarrow> Inl e
                   | Inr ws' \<Rightarrow> Inr (s1\<lparr>timeLeft := 0, wsRef := Some ws'\<rparr>))
                else Inr (s1\<lparr>timeLeft := 0\<rparr>))
      else Inr (s\<lparr>timeLeft := timeLeft s - 1\<rparr>))"

text \<open>The number of \<open>end\<close> messages among the messages handed to the channel.\<close>

definition end_count :: "ClientMessage list \<Rightarrow> nat" where
  "end_count ms = length (filter (\<lambda>m. m = EndMessage) ms)"

subsection \<open>Accuracy\<close>

text \<open>
  A JavaScript string is the list of its UTF-16 code units, each a number from 0 to 65535;
  \<open>js\<close> gives the code units of an ASCII literal.
\<close>

type_synonym js_string = "int list"

definition js :: "string \<Rightarrow> js_string" where
  "js s = map of_char s"

definition SAMPLE_TEXT :: js_string where
  "SAMPLE_TEXT = js (
     ''The early morning sun cast long shadows across the quiet street as people began '' @
     ''their daily routines. Coffee shops opened their doors, releasing the rich aroma '' @
     ''of freshly brewed espresso into the crisp air. Commuters hurried past, their '' @
     ''footsteps echoing on the pavement while they checked their phones and sipped '' @
     ''their drinks. In the park, joggers followed their familiar paths, weaving '' @
     ''between dog walkers and early cyclists. The city was waking up, transforming '' @
     ''from its peaceful nighttime slumber into the bustling hub of activity it would '' @
     ''remain throughout the day. Each person moved with purpose, contributing to the '' @
     ''complex choreography of urban life that played out every morning in cities '' @
     ''around the world.'')"

text \<open>
  \<open>s.split(" ")\<close>: the pieces between single spaces (code unit 32); the empty string
  splits into one empty piece, and two spaces in a row give an empty piece between them.
\<close>

fun split_space :: "js_string \<Rightarrow> js_string list" where
  "split_space [] = [[]]"
| "split_space (c # cs) =
     (if c = 32 then [] # split_space cs
      else (case split_space cs of
              [] \<Rightarrow> [[c]]
            | w # ws \<Rightarrow> (c # w) # ws))"

text \<open>
  \<open>s.trim()\<close>: white space and line terminators are removed at both ends. These are
  the code units U+0009 to U+000D, U+0020, U+00A0, U+1680, U+2000 to U+200A, U+2028,
  U+2029, U+202F, U+205F, U+3000 and U+FEFF.
\<close>

definition is_white_space :: "int \<Rightarrow> bool" where
  "is_white_space c =
     (c \<in> set [9, 10, 11, 12, 13, 32, 160, 5760,
               8192, 8193, 8194, 8195, 8196, 8197, 8198, 8199, 8200, 8201, 8202,
               8232, 8233, 8239, 8287, 12288, 65279])"

definition trim :: "js_string \<Rightarrow> js_string" where
  "trim s = rev (dropWhile is_white_space (rev (dropWhile is_white_space s)))"

text \<open>\<open>xs[i]\<close> of JavaScript: \<open>undefined\<close> (here \<open>None\<close>) out of range.\<close>

definition js_index :: "'a list \<Rightarrow> nat \<Rightarrow> 'a option" where
  "js_index xs i = (if i < length xs then Some (xs ! i) else None)"

text \<open>
  Double arithmetic, as far as the percentage needs it. The result of a division or a
  multiplication is the double nearest to the exact result, a tie going to the even
  significand. For a positive rational \<open>x\<close>, \<open>floor_log2 x\<close> is the exponent \<open>e\<close> with
  \<open>2\<^sup>e \<le> x < 2\<^sup>e\<^sup>+\<^sup>1\<close>, and \<open>to_double x\<close> rounds \<open>x\<close> to 53 significant bits. The values
  rounded here are 0 or lie between \<open>1 / 2\<^sup>5\<^sup>3\<close> and 101, far inside the range of normal
  doubles, so neither overflow nor gradual underflow is written out.
\<close>

definition floor_log2 :: "rat \<Rightarrow> int" where
  "floor_log2 x =
     (let (p, q) = quotient_of x;
          e = bitlen p - bitlen q
      in if 2 powi e \<le> x then e else e - 1)"

definition round_ties_even :: "rat \<Rightarrow> int" where
  "round_ties_even y =
     (let f = \<lfloor>y\<rfloor>; r = y - of_int f
      in if r < 1 / 2 then f
         else if 1 / 2 < r then f + 1
         else if even f then f else f + 1)"

definition to_double :: "rat \<Rightarrow> rat" where
  "to_double x =
     (if x = 0 then 0
      else (let k = 52 - floor_log2 x
            in of_int (round_ties_even (x * 2 powi k)) * 2 powi (- k)))"

text \<open>\<open>Math.round\<close>: the nearest integer, a tie going up.\<close>

definition js_round :: "rat \<Rightarrow> int" where
  "js_round x = \<lfloor>x + 1 / 2\<rfloor>"

text \<open>
  The inner loop (lines 124--128): the positions \<open>j\<close> of the typed word whose character
  equals \<open>word[j]\<close>. Past the end of \<open>word\<close> the right-hand side is \<open>undefined\<close>, which
  no character equals.
\<close>

definition count_correct :: "js_string \<Rightarrow> js_string \<Rightarrow> nat" where
  "count_correct typedWord word =
     length (filter (\<lambda>j. js_index typedWord j = js_index word j) [0..<length typedWord])"

text \<open>
  One pass of the outer loop body (lines 120--129) on the pair
  \<open>(correctChars, totalChars)\<close>; \<open>if (word)\<close> skips a missing and an empty reference
  word.
\<close>

definition accuracy_step ::
  "js_string list \<Rightarrow> js_string list \<Rightarrow> nat \<times> nat \<Rightarrow> nat \<Rightarrow> nat \<times> nat" where
  "accuracy_step words typedWords acc i =
     (case js_index words i of
        None \<Rightarrow> acc
      | Some word \<Rightarrow>
          if word = [] then acc
          else (fst acc + count_correct (typedWords ! i) word, snd acc + length word))"

text \<open>The outer loop (lines 117--130), from \<open>(0, 0)\<close>.\<close>

definition accuracy_counts :: "js_string list \<Rightarrow> js_string list \<Rightarrow> nat \<times> nat" where
  "accuracy_counts words typedWords =
     foldl (accuracy_step words typedWords) (0, 0) [0..<length typedWords]"

text \<open>
  Lines 23--24 and 116--133: the new value of the \<open>accuracy\<close> state cell, given the
  typed input and the current value. \<open>(correctChars / totalChars) * 100\<close> is a double
  division followed by a double multiplication.
\<close>

definition update_accuracy :: "js_string \<Rightarrow> int \<Rightarrow> int" where
  "update_accuracy input accuracy =
     (let words = split_space SAMPLE_TEXT;
          typedWords = split_space (trim input);
          (correctChars, totalChars) = accuracy_counts words typedWords
      in if totalChars > 0
         then js_round (to_double (to_double (of_nat correctChars / of_nat totalChars) * 100))
         else accuracy)"

text \<open>\<open>useState(100)\<close> (line 15).\<close>

definition initial_accuracy :: int where
  "initial_accuracy = 100"

section \<open>Results page: loading the stored results (Results.tsx, lines 28--69)\<close>

text \<open>
  The session storage, by the keys the tests write: \<open>typingAnalysis\<close> (part\_000, line
  59), \<open>voiceAnalysis\<close> (VoiceTest.tsx, line 104) and \<open>blinkAnalysisVoice\<close> (VoiceTest.tsx,
  line 70). A key that was never written is \<open>None\<close>, the \<open>null\<close> that \<open>getItem\<close>
  returns; a stored value is held as \<open>JSON.parse\<close> reads it back.
\<close>

record SessionStorage =
  typingAnalysis :: "TypingResults option"
  voiceAnalysis :: "VoiceResults option"
  blinkAnalysisVoice :: "BlinkData option"

text \<open>
  The effect run when the page is mounted, as far as the two risk cells go: it reads
  \<open>typingAnalysis\<close> and \<open>voiceAnalysis\<close> and calls \<open>calculateOverallRisk\<close> on them.
\<close>

definition results_page_load ::
  "(string \<Rightarrow> string option) \<Rightarrow> (string \<Rightarrow> VoiceAnalysis option) \<Rightarrow> SessionStorage
     \<Rightarrow> ResultsState" where
  "results_page_load fence json_parse storage =
     (let typingData = typingAnalysis storage;
          voiceData = voiceAnalysis storage
      in calculateOverallRisk fence json_parse typingData voiceData initialResultsState)"

text \<open>
  Sessions in which a single modality has reported: typing only, voice only, and blink
  only (5 blinks over 60 seconds, a rate of 5 per minute).
\<close>

definition typing_only_session :: "real \<Rightarrow> SessionStorage" where
  "typing_only_session s =
     \<lparr>typingAnalysis = Some (typing_with_score s), voiceAnalysis = None,
      blinkAnalysisVoice = None\<rparr>"

definition voice_only_session :: "real \<Rightarrow> real \<Rightarrow> SessionStorage" where
  "voice_only_session s c =
     \<lparr>typingAnalysis = None, voiceAnalysis = Some (voice_with_score s c),
      blinkAnalysisVoice = None\<rparr>"

definition blink_only_session :: SessionStorage where
  "blink_only_session =
     \<lparr>typingAnalysis = None, voiceAnalysis = None,
      blinkAnalysisVoice = Some
        \<lparr>blinkCount = 5, duration = 60, blinkTimestamps = [7, 19, 30, 44, 52],
         earValues = [], startTime = 0\<rparr>\<rparr>"

section \<open>Observations used in the statements\<close>

text \<open>
  A blink event is emitted between two tracker states at time \<open>now\<close>: the count has
  gone up by one and \<open>now\<close> has been appended to the timestamps.
\<close>

definition blink_emitted :: "BlinkTracker \<Rightarrow> BlinkTracker \<Rightarrow> real \<Rightarrow> bool" where
  "blink_emitted before after now =
     (blinkCount (blinkData after) = blinkCount (blinkData before) + 1
      \<and> blinkTimestamps (blinkData after) = blinkTimestamps (blinkData before) @ [now])"

text \<open>
  The messages handed so far to the channel that \<open>wsRef\<close> holds, and whether that
  channel is open.
\<close>

definition channel_sent :: "TimerState \<Rightarrow> ClientMessage list" where
  "channel_sent s = (case wsRef s of None \<Rightarrow> [] | Some ws \<Rightarrow> sent ws)"

definition channel_open :: "TimerState \<Rightarrow> bool" where
  "channel_open s = (case wsRef s of None \<Rightarrow> False | Some ws \<Rightarrow> readyState ws = OPEN)"

text \<open>Concrete channels and timer states: an open one and a closed one, at one second left.\<close>

definition open_socket :: WebSocket where
  "open_socket = \<lparr>readyState = OPEN, sent = []\<rparr>"

definition closed_socket :: WebSocket where
  "closed_socket = \<lparr>readyState = CLOSED, sent = []\<rparr>"

definition last_second :: "WebSocket \<Rightarrow> TimerState" where
  "last_second ws = \<lparr>timeLeft = 1, isActive = True, isComplete = False, wsRef = Some ws\<rparr>"

section \<open>Properties of the overall risk\<close>

subsection \<open>Auxiliary facts\<close>

lemma foldl_plus_sum_list: "foldl (\<lambda>a b. a + b) (a::real) xs = a + sum_list xs"
  by (induction xs arbitrary: a) simp_all

lemma fuse_risks_nonempty:
  "risks \<noteq> [] \<Longrightarrow>
     fuse_risks risks st =
       st\<lparr>overallRisk := sum_list risks / real (length risks),
          riskCategory := risk_band (sum_list risks / real (length risks))\<rparr>"
  by (simp add: fuse_risks_def foldl_plus_sum_list Let_def)

lemma fuse_risks_empty: "fuse_risks [] st = st"
  by (simp add: fuse_risks_def)

lemma spec_weighted_mean_unit:
  "spec_weighted_mean (map (\<lambda>v. (v, 1)) rs) = sum_list rs / real (length rs)"
proof -
  have a: "sum_list (map (\<lambda>(v, c). v * c) (map (\<lambda>v. (v, 1::real)) rs)) = sum_list rs"
    by (induction rs) simp_all
  have b: "sum_list (map snd (map (\<lambda>v. (v, 1::real)) rs)) = real (length rs)"
    by (induction rs) simp_all
  show ?thesis unfolding spec_weighted_mean_def a b ..
qed

lemma collect_risks_reported:
  "collect_risks fence json_parse typing voice =
     (case (typing_risk typing, voice_risk fence json_parse voice) of
        (None, None) \<Rightarrow> []
      | (Some a, None) \<Rightarrow> [a]
      | (None, Some b) \<Rightarrow> [b]
      | (Some a, Some b) \<Rightarrow> [a, b])"
  by (simp add: collect_risks_def split: option.splits)

lemma voice_risk_object [simp]:
  "voice_risk fence json_parse (Some (voice_with_score s c)) = Some s"
  by (simp add: voice_risk_def voice_with_score_def truthy_raw_def parse_raw_response_def)

lemma typing_risk_score [simp]: "typing_risk (Some (typing_with_score s)) = Some s"
  by (simp add: typing_risk_def typing_with_score_def)

lemma typing_risk_None [simp]: "typing_risk None = None"
  by (simp add: typing_risk_def)

lemma voice_risk_None [simp]: "voice_risk fence json_parse None = None"
  by (simp add: voice_risk_def)

lemma risk_band_low: "(risk_band r = ''low'') = (r < 0.3)"
  by (simp add: risk_band_def)

lemma risk_band_moderate: "(risk_band r = ''moderate'') = (0.3 \<le> r \<and> r < 0.5)"
  by (auto simp add: risk_band_def)

lemma risk_band_elevated: "(risk_band r = ''elevated'') = (0.5 \<le> r \<and> r < 0.7)"
  by (auto simp add: risk_band_def)

lemma risk_band_high: "(risk_band r = ''high'') = (0.7 \<le> r)"
  by (auto simp add: risk_band_def)

subsection \<open>C1: the mean that is computed\<close>

text \<open>
  C1, as stated, fails: the overall risk is not the confidence-weighted mean. With a
  typing score of 0.2 (confidence 1.0) and a voice score of 0.8 reported with
  confidence 0.5, the weighted mean is \<open>(0.2 + 0.4) / 1.5 = 0.4\<close>, and the page computes
  \<open>(0.2 + 0.8) / 2 = 0.5\<close>: the reported confidence is never read.
\<close>

theorem fusion_ignores_confidence:
  "overallRisk (calculateOverallRisk no_fence no_json
       (Some (typing_with_score 0.2)) (Some (voice_with_score 0.8 0.5)) initialResultsState)
     \<noteq> spec_weighted_mean [(0.2, 1.0), (0.8, 0.5)]"
  by (simp add: calculateOverallRisk_def collect_risks_def fuse_risks_def spec_weighted_mean_def
      Let_def)

text \<open>
  C1, amended: whenever at least one of the typing and voice scores has been reported,
  the overall risk is the plain arithmetic mean of the reported scores, that is the
  weighted mean in which every reported score has the same confidence 1; the scores
  averaged are exactly the typing score, if defined, and the voice score, if one could
  be read.
\<close>

theorem overallRisk_is_plain_mean:
  assumes "collect_risks fence json_parse typing voice = rs" and "rs \<noteq> []"
  shows "overallRisk (calculateOverallRisk fence json_parse typing voice st)
           = sum_list rs / real (length rs)
       \<and> overallRisk (calculateOverallRisk fence json_parse typing voice st)
           = spec_weighted_mean (map (\<lambda>v. (v, 1)) rs)
       \<and> rs = (case (typing_risk typing, voice_risk fence json_parse voice) of
                 (None, None) \<Rightarrow> []
               | (Some a, None) \<Rightarrow> [a]
               | (None, Some b) \<Rightarrow> [b]
               | (Some a, Some b) \<Rightarrow> [a, b])"
proof -
  have "calculateOverallRisk fence json_parse typing voice st = fuse_risks rs st"
    using assms(1) by (simp add: calculateOverallRisk_def)
  then have "overallRisk (calculateOverallRisk fence json_parse typing voice st)
      = sum_list rs / real (length rs)"
    using assms(2) by (simp add: fuse_risks_nonempty)
  moreover have "rs = (case (typing_risk typing, voice_risk fence json_parse voice) of
                 (None, None) \<Rightarrow> []
               | (Some a, None) \<Rightarrow> [a]
               | (None, Some b) \<Rightarrow> [b]
               | (Some a, Some b) \<Rightarrow> [a, b])"
    using assms(1) collect_risks_reported [of fence json_parse typing voice] by simp
  ultimately show ?thesis
    by (simp only: spec_weighted_mean_unit)
qed

theorem overallRisk_is_plain_mean_witness:
  "collect_risks no_fence no_json (Some (typing_with_score 0.2)) (Some (voice_with_score 0.8 0.5))
      = [0.2, 0.8]
   \<and> [0.2, 0.8] \<noteq> ([] :: real list)
   \<and> overallRisk (calculateOverallRisk no_fence no_json
       (Some (typing_with_score 0.2)) (Some (voice_with_score 0.8 0.5)) initialResultsState) = 0.5"
proof -
  have c: "collect_risks no_fence no_json (Some (typing_with_score 0.2))
             (Some (voice_with_score 0.8 0.5)) = [0.2, 0.8]"
    by (simp add: collect_risks_def)
  have n: "[0.2, 0.8] \<noteq> ([] :: real list)" by simp
  from overallRisk_is_plain_mean [OF c n, of initialResultsState] c n show ?thesis by simp
qed

subsection \<open>C2: band thresholds\<close>

text \<open>
  C2: whenever a risk is computed, the category written with it is \<open>low\<close> iff the risk
  is below 0.3, \<open>moderate\<close> iff it lies in \<open>[0.3, 0.5)\<close>, \<open>elevated\<close> iff it lies in
  \<open>[0.5, 0.7)\<close>, and \<open>high\<close> iff it is at least 0.7.
\<close>

theorem risk_band_thresholds:
  assumes "collect_risks fence json_parse typing voice \<noteq> []"
    and "st' = calculateOverallRisk fence json_parse typing voice st"
  shows "(riskCategory st' = ''low'') = (overallRisk st' < 0.3)
       \<and> (riskCategory st' = ''moderate'') = (0.3 \<le> overallRisk st' \<and> overallRisk st' < 0.5)
       \<and> (riskCategory st' = ''elevated'') = (0.5 \<le> overallRisk st' \<and> overallRisk st' < 0.7)
       \<and> (riskCategory st' = ''high'') = (0.7 \<le> overallRisk st')"
  using assms
  by (simp add: calculateOverallRisk_def fuse_risks_nonempty
      risk_band_low risk_band_moderate risk_band_elevated risk_band_high)

text \<open>The two boundary values: a risk of exactly 0.3 is \<open>moderate\<close>, exactly 0.7 is \<open>high\<close>.\<close>

theorem risk_band_thresholds_witness:
  "collect_risks no_fence no_json (Some (typing_with_score 0.3)) None \<noteq> []
   \<and> overallRisk (calculateOverallRisk no_fence no_json (Some (typing_with_score 0.3)) None
        initialResultsState) = 0.3
   \<and> riskCategory (calculateOverallRisk no_fence no_json (Some (typing_with_score 0.3)) None
        initialResultsState) = ''moderate''
   \<and> collect_risks no_fence no_json None (Some (voice_with_score 0.7 1.0)) \<noteq> []
   \<and> overallRisk (calculateOverallRisk no_fence no_json None (Some (voice_with_score 0.7 1.0))
        initialResultsState) = 0.7
   \<and> riskCategory (calculateOverallRisk no_fence no_json None (Some (voice_with_score 0.7 1.0))
        initialResultsState) = ''high''"
proof -
  have a: "collect_risks no_fence no_json (Some (typing_with_score 0.3)) None \<noteq> []"
    by (simp add: collect_risks_def)
  have b: "collect_risks no_fence no_json None (Some (voice_with_score 0.7 1.0)) \<noteq> []"
    by (simp add: collect_risks_def)
  have ra: "overallRisk (calculateOverallRisk no_fence no_json (Some (typing_with_score 0.3)) None
        initialResultsState) = 0.3"
    by (simp add: calculateOverallRisk_def collect_risks_def fuse_risks_def Let_def)
  have rb: "overallRisk (calculateOverallRisk no_fence no_json None
        (Some (voice_with_score 0.7 1.0)) initialResultsState) = 0.7"
    by (simp add: calculateOverallRisk_def collect_risks_def fuse_risks_def Let_def)
  from risk_band_thresholds [OF a refl, of initialResultsState]
    risk_band_thresholds [OF b refl, of initialResultsState] a b ra rb
  show ?thesis by simp
qed

subsection \<open>C5: no score, no band\<close>

text \<open>
  C5, as stated, fails in its second case: a voice score of 0.8 reported with
  confidence 0, and no other score, is averaged and banded as \<open>high\<close>; the category
  does not stay \<open>unknown\<close>.
\<close>

theorem zero_confidence_still_banded:
  "riskCategory (calculateOverallRisk no_fence no_json None (Some (voice_with_score 0.8 0))
        initialResultsState) = ''high''
   \<and> riskCategory (calculateOverallRisk no_fence no_json None (Some (voice_with_score 0.8 0))
        initialResultsState) \<noteq> ''unknown''"
  by (simp add: calculateOverallRisk_def collect_risks_def fuse_risks_def Let_def risk_band_def)

text \<open>
  C5, amended: when neither a typing score nor a voice score has been reported, the
  state is left as it was initialised: the category is the non-numeric \<open>unknown\<close> and
  none of the four bands.
\<close>

theorem no_scores_stays_unknown:
  assumes "typing_risk typing = None" and "voice_risk fence json_parse voice = None"
  shows "calculateOverallRisk fence json_parse typing voice initialResultsState
           = initialResultsState
       \<and> riskCategory (calculateOverallRisk fence json_parse typing voice initialResultsState)
           = ''unknown''
       \<and> riskCategory (calculateOverallRisk fence json_parse typing voice initialResultsState)
           \<notin> {''low'', ''moderate'', ''elevated'', ''high''}"
  using assms
  by (simp add: calculateOverallRisk_def collect_risks_def fuse_risks_def initialResultsState_def)

theorem no_scores_stays_unknown_witness:
  "typing_risk None = None \<and> voice_risk no_fence no_json None = None
   \<and> riskCategory (calculateOverallRisk no_fence no_json None None initialResultsState)
       = ''unknown''"
proof -
  have a: "typing_risk None = None" by (simp add: typing_risk_def)
  have b: "voice_risk no_fence no_json None = None" by (simp add: voice_risk_def)
  from no_scores_stays_unknown [OF a b] a b show ?thesis by blast
qed

subsection \<open>C7: a single modality\<close>

text \<open>
  When exactly one of the typing and the voice score has been reported, the overall risk
  is that score, whatever confidence came with it, and the category is its band.
\<close>

lemma one_of_two_scores_returned:
  assumes "(typing_risk typing = Some v \<and> voice_risk fence json_parse voice = None)
         \<or> (typing_risk typing = None \<and> voice_risk fence json_parse voice = Some v)"
  shows "overallRisk (calculateOverallRisk fence json_parse typing voice st) = v
       \<and> riskCategory (calculateOverallRisk fence json_parse typing voice st) = risk_band v"
proof -
  from assms have "collect_risks fence json_parse typing voice = [v]"
    by (auto simp add: collect_risks_def)
  then show ?thesis
    by (simp add: calculateOverallRisk_def fuse_risks_def Let_def)
qed

text \<open>
  C7: a session in which a single modality has reported should show that modality's
  value as the overall risk. The page does so for a typing-only session (score 0.4:
  risk 0.4, band \<open>moderate\<close>) and for a voice-only session (score 0.8 at confidence 1.0:
  risk 0.8, band \<open>high\<close>). For a blink-only session (5 blinks per minute, blink risk
  1.0) it does not: the stored blink data is never read, the overall risk stays 0 and
  the category stays \<open>unknown\<close>.
\<close>

theorem single_modality_sessions_value:
  "overallRisk (results_page_load no_fence no_json (typing_only_session 0.4)) = 0.4
   \<and> riskCategory (results_page_load no_fence no_json (typing_only_session 0.4)) = ''moderate''
   \<and> overallRisk (results_page_load no_fence no_json (voice_only_session 0.8 1.0)) = 0.8
   \<and> riskCategory (results_page_load no_fence no_json (voice_only_session 0.8 1.0)) = ''high''
   \<and> blinkRisk 5 = 1.0
   \<and> overallRisk (results_page_load no_fence no_json blink_only_session) = 0
   \<and> overallRisk (results_page_load no_fence no_json blink_only_session) \<noteq> blinkRisk 5
   \<and> riskCategory (results_page_load no_fence no_json blink_only_session) = ''unknown''"
  by (simp add: results_page_load_def typing_only_session_def voice_only_session_def
      blink_only_session_def calculateOverallRisk_def collect_risks_def fuse_risks_def
      Let_def risk_band_def blinkRisk_def initialResultsState_def)

subsection \<open>C8: order of the scores\<close>

text \<open>
  C8: the state written from a list of scores depends only on the scores, not on the
  order in which they were pushed: two lists that are permutations of each other give
  the same overall risk and the same category.
\<close>

theorem fuse_risks_order_independent:
  assumes "mset risks' = mset risks"
  shows "fuse_risks risks' st = fuse_risks risks st"
proof -
  have s: "sum_list risks' = sum_list risks"
    using assms by (metis sum_mset_sum_list)
  have l: "length risks' = length risks"
    using assms by (metis size_mset)
  show ?thesis
    by (simp add: fuse_risks_def foldl_plus_sum_list s l)
qed

theorem fuse_risks_order_independent_witness:
  "mset [0.2, 0.1 :: real] = mset [0.1, 0.2]
   \<and> fuse_risks [0.2, 0.1] initialResultsState = fuse_risks [0.1, 0.2] initialResultsState"
proof -
  have m: "mset [0.2, 0.1 :: real] = mset [0.1, 0.2]" by (simp add: add_mset_commute)
  from fuse_risks_order_independent [OF m, of initialResultsState] m show ?thesis by simp
qed

subsection \<open>C6: the three-modality scenario\<close>

text \<open>
  C6: a blink rate of 20 per minute has blink risk 0.0, and with a typing score of 0.1
  and a voice score of 0.2 the overall risk should be \<open>(0.1 + 0.2 + 0.0) / 3 = 0.1\<close>.
  \<open>calculateOverallRisk\<close> takes the typing and the voice result only, so the value it
  writes on this input is \<open>(0.1 + 0.2) / 2 = 0.15\<close>; the band is \<open>low\<close> for both values.
\<close>

theorem three_modality_scenario_value:
  "blinkRisk 20 = 0.0
   \<and> overallRisk (calculateOverallRisk no_fence no_json (Some (typing_with_score 0.1))
        (Some (voice_with_score 0.2 1.0)) initialResultsState) = 0.15
   \<and> overallRisk (calculateOverallRisk no_fence no_json (Some (typing_with_score 0.1))
        (Some (voice_with_score 0.2 1.0)) initialResultsState) \<noteq> (0.1 + 0.2 + 0.0) / 3
   \<and> riskCategory (calculateOverallRisk no_fence no_json (Some (typing_with_score 0.1))
        (Some (voice_with_score 0.2 1.0)) initialResultsState) = ''low''"
  by (simp add: calculateOverallRisk_def collect_risks_def fuse_risks_def Let_def risk_band_def
      blinkRisk_def)

section \<open>Properties of the blink tracker\<close>

subsection \<open>Auxiliary facts\<close>

lemma onResults_no_face: "onResults active None now t = t"
  by (simp add: onResults_def)

lemma onResults_inactive: "onResults False face now t = t"
  by (simp add: onResults_def split: option.splits)

lemma onResults_active_face: "onResults True (Some avgEAR) now t = process_avgEAR avgEAR now t"
  by (simp add: onResults_def)

lemma process_samples_Nil [simp]: "process_samples [] t = t"
  by (simp add: process_samples_def)

lemma process_samples_snoc:
  "process_samples (samples @ [(e, now)]) t = process_avgEAR e now (process_samples samples t)"
  by (simp add: process_samples_def)

lemma closed_run_Nil [simp]: "closed_run [] = 0"
  by (simp add: closed_run_def)

lemma closed_run_snoc:
  "closed_run (ears @ [e]) = (if e < EAR_THRESHOLD then closed_run ears + 1 else 0)"
  by (simp add: closed_run_def)

lemma counter_process_avgEAR:
  "consecutiveClosedFrames (process_avgEAR e now t) =
     (if e < EAR_THRESHOLD then consecutiveClosedFrames t + 1 else 0)"
  by (simp add: process_avgEAR_def Let_def)

text \<open>The counter is the length of the run of closed-eye samples seen last.\<close>

lemma counter_is_closed_run:
  "consecutiveClosedFrames t = 0 \<Longrightarrow>
   consecutiveClosedFrames (process_samples samples t) = closed_run (map fst samples)"
proof (induction samples rule: rev_induct)
  case Nil
  then show ?case by simp
next
  case (snoc x xs)
  obtain e now where x: "x = (e, now)" by (cases x)
  from snoc show ?case
    by (simp add: x process_samples_snoc counter_process_avgEAR closed_run_snoc)
qed

lemma blinkCount_process_avgEAR:
  "blinkCount (blinkData (process_avgEAR e now t)) =
     (if \<not> e < EAR_THRESHOLD \<and> CONSEC_FRAMES \<le> consecutiveClosedFrames t
      then blinkCount (blinkData t) + 1 else blinkCount (blinkData t))"
  by (simp add: process_avgEAR_def Let_def)

lemma blinkTimestamps_process_avgEAR:
  "blinkTimestamps (blinkData (process_avgEAR e now t)) =
     (if \<not> e < EAR_THRESHOLD \<and> CONSEC_FRAMES \<le> consecutiveClosedFrames t
      then blinkTimestamps (blinkData t) @ [now] else blinkTimestamps (blinkData t))"
  by (simp add: process_avgEAR_def Let_def)

lemma closed_run_two:
  "(2 \<le> closed_run ears) =
     (2 \<le> length ears \<and> ears ! (length ears - 1) < EAR_THRESHOLD
        \<and> ears ! (length ears - 2) < EAR_THRESHOLD)"
proof (induction ears rule: rev_induct)
  case Nil
  then show ?case by simp
next
  case (snoc e es)
  show ?case
  proof (cases es rule: rev_cases)
    case Nil
    then show ?thesis by (simp add: closed_run_def)
  next
    case (snoc ds d)
    then show ?thesis
      by (auto simp add: closed_run_def nth_append)
  qed
qed

lemma blink_emitted_step:
  "blink_emitted t (process_avgEAR e now t) now =
     (EAR_THRESHOLD \<le> e \<and> CONSEC_FRAMES \<le> consecutiveClosedFrames t)"
  by (auto simp add: blink_emitted_def blinkCount_process_avgEAR blinkTimestamps_process_avgEAR)

lemma not_emitted_step:
  "\<not> blink_emitted t (process_avgEAR e now t) now \<Longrightarrow>
     blinkCount (blinkData (process_avgEAR e now t)) = blinkCount (blinkData t)
     \<and> blinkTimestamps (blinkData (process_avgEAR e now t)) = blinkTimestamps (blinkData t)"
  by (auto simp add: blink_emitted_def blinkCount_process_avgEAR blinkTimestamps_process_avgEAR
      split: if_splits)

lemma take_Suc_samples:
  "i < length samples \<Longrightarrow>
   process_samples (take (Suc i) samples) t =
     process_avgEAR (fst (samples ! i)) (snd (samples ! i)) (process_samples (take i samples) t)"
  by (simp add: take_Suc_conv_app_nth process_samples_def case_prod_beta)

subsection \<open>C3: when a blink is emitted\<close>

text \<open>
  C3: let a tracker that has just been started process a finite sequence of samples, and
  look at sample \<open>i\<close>, with \<open>before\<close> and \<open>after\<close> the tracker states around it. A blink
  event is emitted at sample \<open>i\<close> iff the sample is at or above \<open>EAR_THRESHOLD\<close> and the run
  of below-threshold samples immediately before it has length at least \<open>CONSEC_FRAMES\<close>,
  which for \<open>CONSEC_FRAMES = 2\<close> says that the two samples before it exist and are both
  below the threshold. Without an event neither the count nor the timestamps change; a
  run of exactly \<open>CONSEC_FRAMES - 1\<close> samples gives no event; and the counter goes up by
  one on a below-threshold sample and back to 0 on every other sample.
\<close>

theorem blink_emitted_iff_closed_run:
  assumes "i < length samples"
    and "ears = map fst samples"
    and "before = process_samples (take i samples) (startTracking_reset t0)"
    and "after = process_samples (take (Suc i) samples) (startTracking_reset t0)"
  shows "blink_emitted before after (snd (samples ! i))
            = (EAR_THRESHOLD \<le> ears ! i \<and> CONSEC_FRAMES \<le> closed_run (take i ears))
       \<and> (CONSEC_FRAMES \<le> closed_run (take i ears))
            = (2 \<le> i \<and> ears ! (i - 1) < EAR_THRESHOLD \<and> ears ! (i - 2) < EAR_THRESHOLD)
       \<and> (\<not> blink_emitted before after (snd (samples ! i)) \<longrightarrow>
            blinkCount (blinkData after) = blinkCount (blinkData before)
            \<and> blinkTimestamps (blinkData after) = blinkTimestamps (blinkData before))
       \<and> (closed_run (take i ears) = CONSEC_FRAMES - 1 \<longrightarrow>
            \<not> blink_emitted before after (snd (samples ! i)))
       \<and> consecutiveClosedFrames after = (if ears ! i < EAR_THRESHOLD
            then consecutiveClosedFrames before + 1 else 0)"
proof -
  have step: "after = process_avgEAR (fst (samples ! i)) (snd (samples ! i)) before"
    using assms by (simp add: take_Suc_samples)
  have e: "ears ! i = fst (samples ! i)"
    using assms by simp
  have c: "consecutiveClosedFrames before = closed_run (take i ears)"
    using assms counter_is_closed_run [of "startTracking_reset t0" "take i samples"]
    by (simp add: startTracking_reset_def take_map)
  have em: "blink_emitted before after (snd (samples ! i))
            = (EAR_THRESHOLD \<le> ears ! i \<and> CONSEC_FRAMES \<le> closed_run (take i ears))"
    by (simp add: step blink_emitted_step e c)
  have two: "(CONSEC_FRAMES \<le> closed_run (take i ears))
            = (2 \<le> i \<and> ears ! (i - 1) < EAR_THRESHOLD \<and> ears ! (i - 2) < EAR_THRESHOLD)"
    using assms(1,2) by (auto simp add: CONSEC_FRAMES_def closed_run_two min_def)
  have ne: "\<not> blink_emitted before after (snd (samples ! i)) \<longrightarrow>
            blinkCount (blinkData after) = blinkCount (blinkData before)
            \<and> blinkTimestamps (blinkData after) = blinkTimestamps (blinkData before)"
    using not_emitted_step [of before "fst (samples ! i)" "snd (samples ! i)"]
    by (simp add: step)
  have one: "closed_run (take i ears) = CONSEC_FRAMES - 1 \<longrightarrow>
            \<not> blink_emitted before after (snd (samples ! i))"
    by (simp add: em CONSEC_FRAMES_def)
  have cnt: "consecutiveClosedFrames after = (if ears ! i < EAR_THRESHOLD
            then consecutiveClosedFrames before + 1 else 0)"
    by (simp add: step counter_process_avgEAR e)
  from em two ne one cnt show ?thesis by blast
qed

text \<open>
  Two runs: open, closed, closed, open emits at the fourth sample; open, closed, open
  has a closed run of one sample only and emits nothing at the third.
\<close>

theorem blink_emitted_iff_closed_run_witness:
  "(3::nat) < length [(0.3, 1), (0.2, 2), (0.1, 3), (0.3, 4 :: real)]
   \<and> blink_emitted
        (process_samples (take 3 [(0.3, 1), (0.2, 2), (0.1, 3), (0.3, 4)]) (startTracking_reset 0))
        (process_samples (take (Suc 3) [(0.3, 1), (0.2, 2), (0.1, 3), (0.3, 4)])
           (startTracking_reset 0)) 4
   \<and> (2::nat) < length [(0.3, 1), (0.2, 2), (0.3, 3 :: real)]
   \<and> closed_run (take 2 (map fst [(0.3, 1), (0.2, 2), (0.3, 3 :: real)])) = CONSEC_FRAMES - 1
   \<and> \<not> blink_emitted
        (process_samples (take 2 [(0.3, 1), (0.2, 2), (0.3, 3)]) (startTracking_reset 0))
        (process_samples (take (Suc 2) [(0.3, 1), (0.2, 2), (0.3, 3)]) (startTracking_reset 0)) 3"
proof -
  have l1: "(3::nat) < length [(0.3, 1), (0.2, 2), (0.1, 3), (0.3, 4 :: real)]" by simp
  have l2: "(2::nat) < length [(0.3, 1), (0.2, 2), (0.3, 3 :: real)]" by simp
  have r1: "EAR_THRESHOLD \<le> map fst [(0.3, 1), (0.2, 2), (0.1, 3), (0.3, 4 :: real)] ! 3
     \<and> CONSEC_FRAMES
         \<le> closed_run (take 3 (map fst [(0.3, 1), (0.2, 2), (0.1, 3), (0.3, 4 :: real)]))"
    by (simp add: EAR_THRESHOLD_def CONSEC_FRAMES_def closed_run_def)
  have r2: "closed_run (take 2 (map fst [(0.3, 1), (0.2, 2), (0.3, 3 :: real)]))
      = CONSEC_FRAMES - 1"
    by (simp add: EAR_THRESHOLD_def CONSEC_FRAMES_def closed_run_def)
  from blink_emitted_iff_closed_run [OF l1 refl refl refl, of 0] r1
  have e1: "blink_emitted
        (process_samples (take 3 [(0.3, 1), (0.2, 2), (0.1, 3), (0.3, 4)]) (startTracking_reset 0))
        (process_samples (take (Suc 3) [(0.3, 1), (0.2, 2), (0.1, 3), (0.3, 4)])
           (startTracking_reset 0)) 4"
    by simp
  from blink_emitted_iff_closed_run [OF l2 refl refl refl, of 0] r2
  have e2: "\<not> blink_emitted
        (process_samples (take 2 [(0.3, 1), (0.2, 2), (0.3, 3)]) (startTracking_reset 0))
        (process_samples (take (Suc 2) [(0.3, 1), (0.2, 2), (0.3, 3)]) (startTracking_reset 0)) 3"
    by simp
  from l1 l2 r2 e1 e2 show ?thesis by blast
qed

subsection \<open>C4: blink risk\<close>

text \<open>
  C4: for every non-negative blink rate, the blink risk is \<open>clamp01((20 - rate) / 15)\<close>:
  it lies in \<open>[0, 1]\<close>, is 0 from 20 blinks per minute up, 1 up to 5 blinks per minute,
  and \<open>(20 - rate) / 15\<close> in between.
\<close>

theorem blinkRisk_clamp01:
  assumes "0 \<le> r"
  shows "blinkRisk r = clamp01 ((20 - r) / 15)
       \<and> 0 \<le> blinkRisk r \<and> blinkRisk r \<le> 1
       \<and> (20 \<le> r \<longrightarrow> blinkRisk r = 0)
       \<and> (r \<le> 5 \<longrightarrow> blinkRisk r = 1)
       \<and> (5 \<le> r \<and> r \<le> 20 \<longrightarrow> blinkRisk r = (20 - r) / 15)"
  using assms by (auto simp add: blinkRisk_def clamp01_def max_def min_def)

theorem blinkRisk_clamp01_witness:
  "(0::real) \<le> 0 \<and> blinkRisk 0 = 1 \<and> (0::real) \<le> 5 \<and> blinkRisk 5 = 1
   \<and> (0::real) \<le> 15 \<and> blinkRisk 15 = 1 / 3
   \<and> (0::real) \<le> 20 \<and> blinkRisk 20 = 0 \<and> (0::real) \<le> 45 \<and> blinkRisk 45 = 0"
  using blinkRisk_clamp01 [of 0] blinkRisk_clamp01 [of 5] blinkRisk_clamp01 [of 15]
    blinkRisk_clamp01 [of 20] blinkRisk_clamp01 [of 45]
  by simp

section \<open>Properties of the typing test\<close>

subsection \<open>Auxiliary facts on the channel\<close>

lemma cleanup_result:
  "websocket_cleanup ws =
     Inr (ws\<lparr>sent := sent ws @ (if readyState ws = OPEN then [EndMessage] else []),
            readyState := (if readyState ws = CLOSED then CLOSED else CLOSING)\<rparr>)"
  by (cases "readyState ws") (simp_all add: websocket_cleanup_def ws_send_def ws_close_def)

lemma tick_expiry_result:
  "timeLeft s \<le> 1 \<Longrightarrow>
   \<exists>s'. timer_tick s = Inr s'
      \<and> channel_sent s' = channel_sent s @ (if channel_open s then [EndMessage] else [])
      \<and> timeLeft s' = 0 \<and> isComplete s' \<and> \<not> isActive s'"
  by (cases "wsRef s")
     (auto simp add: timer_tick_def ws_send_def channel_sent_def channel_open_def Let_def)

lemma tick_running_result:
  "1 < timeLeft s \<Longrightarrow> timer_tick s = Inr (s\<lparr>timeLeft := timeLeft s - 1\<rparr>)"
  by (simp add: timer_tick_def)

subsection \<open>C9: the end message\<close>

text \<open>
  C9: the cleanup run on unmount and the timer callback at expiry (\<open>timeLeft \<le> 1\<close>) each
  make one guarded attempt to send \<open>end\<close>, and neither raises an error, whatever state
  the channel is in: on an open channel exactly one \<open>end\<close> message is appended to what
  was sent, and on a channel that is not open (connecting, closing, closed after an
  error, or absent) nothing is sent.
\<close>

theorem end_message_once_if_open:
  "(\<exists>ws'. websocket_cleanup ws = Inr ws'
       \<and> sent ws' = sent ws @ (if readyState ws = OPEN then [EndMessage] else [])
       \<and> end_count (sent ws') = end_count (sent ws) + (if readyState ws = OPEN then 1 else 0)
       \<and> readyState ws' \<noteq> OPEN)
   \<and> (timeLeft s \<le> 1 \<longrightarrow>
        (\<exists>s'. timer_tick s = Inr s'
           \<and> channel_sent s' = channel_sent s @ (if channel_open s then [EndMessage] else [])
           \<and> end_count (channel_sent s')
                = end_count (channel_sent s) + (if channel_open s then 1 else 0)
           \<and> timeLeft s' = 0 \<and> isComplete s' \<and> \<not> isActive s'))"
proof -
  have a: "\<exists>ws'. websocket_cleanup ws = Inr ws'
       \<and> sent ws' = sent ws @ (if readyState ws = OPEN then [EndMessage] else [])
       \<and> end_count (sent ws') = end_count (sent ws) + (if readyState ws = OPEN then 1 else 0)
       \<and> readyState ws' \<noteq> OPEN"
    by (simp add: cleanup_result end_count_def)
  have b: "timeLeft s \<le> 1 \<longrightarrow>
        (\<exists>s'. timer_tick s = Inr s'
           \<and> channel_sent s' = channel_sent s @ (if channel_open s then [EndMessage] else [])
           \<and> end_count (channel_sent s')
                = end_count (channel_sent s) + (if channel_open s then 1 else 0)
           \<and> timeLeft s' = 0 \<and> isComplete s' \<and> \<not> isActive s')"
  proof
    assume "timeLeft s \<le> 1"
    from tick_expiry_result [OF this] obtain s' where
      s': "timer_tick s = Inr s'"
        "channel_sent s' = channel_sent s @ (if channel_open s then [EndMessage] else [])"
        "timeLeft s' = 0" "isComplete s'" "\<not> isActive s'"
      by blast
    then show "\<exists>s'. timer_tick s = Inr s'
           \<and> channel_sent s' = channel_sent s @ (if channel_open s then [EndMessage] else [])
           \<and> end_count (channel_sent s')
                = end_count (channel_sent s) + (if channel_open s then 1 else 0)
           \<and> timeLeft s' = 0 \<and> isComplete s' \<and> \<not> isActive s'"
      by (simp add: end_count_def)
  qed
  from a b show ?thesis by blast
qed

text \<open>An open and a closed channel, at expiry and at unmount.\<close>

theorem end_message_once_if_open_witness:
  "timeLeft (last_second open_socket) \<le> 1
   \<and> (\<exists>s'. timer_tick (last_second open_socket) = Inr s' \<and> channel_sent s' = [EndMessage])
   \<and> timeLeft (last_second closed_socket) \<le> 1
   \<and> (\<exists>s'. timer_tick (last_second closed_socket) = Inr s' \<and> channel_sent s' = [])
   \<and> (\<exists>ws'. websocket_cleanup open_socket = Inr ws' \<and> sent ws' = [EndMessage])
   \<and> (\<exists>ws'. websocket_cleanup closed_socket = Inr ws' \<and> sent ws' = [])"
proof -
  have t1: "timeLeft (last_second open_socket) \<le> 1"
    and t2: "timeLeft (last_second closed_socket) \<le> 1"
    by (simp_all add: last_second_def)
  have o1: "channel_open (last_second open_socket)" "channel_sent (last_second open_socket) = []"
    by (simp_all add: last_second_def open_socket_def channel_open_def channel_sent_def)
  have o2: "\<not> channel_open (last_second closed_socket)"
    "channel_sent (last_second closed_socket) = []"
    by (simp_all add: last_second_def closed_socket_def channel_open_def channel_sent_def)
  have s: "readyState open_socket = OPEN" "sent open_socket = []"
    "readyState closed_socket \<noteq> OPEN" "sent closed_socket = []"
    by (simp_all add: open_socket_def closed_socket_def)
  from end_message_once_if_open [of open_socket "last_second open_socket"] t1 o1 s
  have a: "(\<exists>s'. timer_tick (last_second open_socket) = Inr s' \<and> channel_sent s' = [EndMessage])"
    "(\<exists>ws'. websocket_cleanup open_socket = Inr ws' \<and> sent ws' = [EndMessage])"
    by auto
  from end_message_once_if_open [of closed_socket "last_second closed_socket"] t2 o2 s
  have b: "(\<exists>s'. timer_tick (last_second closed_socket) = Inr s' \<and> channel_sent s' = [])"
    "(\<exists>ws'. websocket_cleanup closed_socket = Inr ws' \<and> sent ws' = [])"
    by auto
  from t1 t2 a b show ?thesis by blast
qed

subsection \<open>Auxiliary facts on the accuracy\<close>

lemma count_correct_card:
  "count_correct typedWord word =
     card {j. j < length typedWord \<and> j < length word \<and> typedWord ! j = word ! j}"
proof -
  have "count_correct typedWord word
      = card ({j. js_index typedWord j = js_index word j} \<inter> set [0..<length typedWord])"
    unfolding count_correct_def by (rule distinct_length_filter) simp
  also have "{j. js_index typedWord j = js_index word j} \<inter> set [0..<length typedWord]
      = {j. j < length typedWord \<and> j < length word \<and> typedWord ! j = word ! j}"
    by (auto simp add: js_index_def split: if_splits)
  finally show ?thesis .
qed

lemma count_correct_le: "count_correct typedWord word \<le> length word"
proof -
  have "{j. j < length typedWord \<and> j < length word \<and> typedWord ! j = word ! j} \<subseteq> {..<length word}"
    by auto
  then have "card {j. j < length typedWord \<and> j < length word \<and> typedWord ! j = word ! j}
      \<le> card {..<length word}"
    by (rule card_mono [rotated]) simp
  then show ?thesis by (simp add: count_correct_card)
qed

lemma accuracy_step_le:
  "fst acc \<le> snd acc \<Longrightarrow>
   fst (accuracy_step words typedWords acc i) \<le> snd (accuracy_step words typedWords acc i)"
  using count_correct_le [of "typedWords ! i"]
  by (auto simp add: accuracy_step_def add_mono split: option.splits)

lemma foldl_accuracy_step_le:
  "fst acc \<le> snd acc \<Longrightarrow>
   fst (foldl (accuracy_step words typedWords) acc is)
     \<le> snd (foldl (accuracy_step words typedWords) acc is)"
  by (induction "is" arbitrary: acc) (simp_all add: accuracy_step_le)

lemma accuracy_counts_le:
  "fst (accuracy_counts words typedWords) \<le> snd (accuracy_counts words typedWords)"
  unfolding accuracy_counts_def by (rule foldl_accuracy_step_le) simp

text \<open>Rounding to a double moves a positive value by at most one part in \<open>2\<^sup>5\<^sup>3\<close>.\<close>

lemma quotient_of_pos:
  assumes "0 < x" and "quotient_of x = (p, q)"
  shows "0 < p" and "0 < q" and "x = of_int p / of_int q"
proof -
  show q: "0 < q" using assms(2) by (rule quotient_of_denom_pos)
  show x: "x = of_int p / of_int q" using assms(2) by (rule quotient_of_div)
  from assms(1) x q show "0 < p" by (simp add: zero_less_divide_iff)
qed

lemma bitlen_powi_bounds:
  assumes "0 < p"
  shows "(2::rat) powi (bitlen p - 1) \<le> of_int p" and "of_int p < (2::rat) powi bitlen p"
proof -
  from assms have b: "0 < bitlen p"
    using bitlen_eq_zero_iff [of p] bitlen_nonneg [of p] by (simp add: order_less_le)
  from bitlen_bounds [OF assms] have lo: "2 ^ nat (bitlen p - 1) \<le> p" and hi: "p < 2 ^ nat (bitlen p)"
    by simp_all
  have "(2::rat) powi (bitlen p - 1) = of_int (2 ^ nat (bitlen p - 1))"
    using b by (simp add: power_int_def)
  also have "\<dots> \<le> of_int p" using lo by (simp only: of_int_le_iff)
  finally show "(2::rat) powi (bitlen p - 1) \<le> of_int p" .
  have "(of_int p :: rat) < of_int (2 ^ nat (bitlen p))" using hi by (simp only: of_int_less_iff)
  also have "\<dots> = (2::rat) powi bitlen p"
    using b by (simp add: power_int_def)
  finally show "of_int p < (2::rat) powi bitlen p" .
qed

lemma floor_log2_bounds:
  assumes "0 < x"
  shows "2 powi floor_log2 x \<le> x" and "x < 2 powi (floor_log2 x + 1)"
proof -
  obtain p q where pq: "quotient_of x = (p, q)" by (cases "quotient_of x")
  note f = quotient_of_pos [OF assms pq]
  let ?e = "bitlen p - bitlen q"
  have lo: "(2::rat) powi (?e - 1) \<le> x"
  proof -
    have "(2::rat) powi (?e - 1) = 2 powi (bitlen p - 1) / 2 powi bitlen q"
      by (simp add: power_int_diff)
    also have "\<dots> \<le> of_int p / of_int q"
      using bitlen_powi_bounds [OF f(1)] bitlen_powi_bounds [OF f(2)] f(1) f(2)
      by (intro frac_le) simp_all
    finally show ?thesis by (simp add: f(3))
  qed
  have hi: "x < (2::rat) powi (?e + 1)"
  proof -
    have "of_int p / of_int q < (2::rat) powi bitlen p / 2 powi (bitlen q - 1)"
      using bitlen_powi_bounds [OF f(1)] bitlen_powi_bounds [OF f(2)] f(1) f(2)
      by (intro frac_less) simp_all
    also have "\<dots> = (2::rat) powi (?e + 1)"
      by (simp add: power_int_diff power_int_add)
    finally show ?thesis by (simp add: f(3))
  qed
  show "2 powi floor_log2 x \<le> x"
    using lo by (simp add: floor_log2_def pq Let_def)
  show "x < 2 powi (floor_log2 x + 1)"
    using hi by (simp add: floor_log2_def pq Let_def not_le)
qed

lemma round_ties_even_error: "\<bar>of_int (round_ties_even y) - y\<bar> \<le> 1 / 2"
proof -
  have "of_int \<lfloor>y\<rfloor> \<le> y" "y < of_int \<lfloor>y\<rfloor> + 1" by linarith+
  then show ?thesis
    by (auto simp add: round_ties_even_def Let_def abs_le_iff)
qed

lemma round_ties_even_nonneg: "0 \<le> y \<Longrightarrow> 0 \<le> round_ties_even y"
  by (auto simp add: round_ties_even_def Let_def)

lemma to_double_nonneg: "0 \<le> x \<Longrightarrow> 0 \<le> to_double x"
  by (simp add: to_double_def Let_def round_ties_even_nonneg)

lemma to_double_error:
  assumes "0 < x"
  shows "\<bar>to_double x - x\<bar> \<le> x / 2 ^ 53"
proof -
  let ?k = "52 - floor_log2 x"
  let ?m = "round_ties_even (x * 2 powi ?k)"
  have p: "(0::rat) < 2 powi (- ?k)" by simp
  have "to_double x - x = (of_int ?m - x * 2 powi ?k) * 2 powi (- ?k)"
    using assms by (simp add: to_double_def Let_def algebra_simps flip: power_int_add)
  then have "\<bar>to_double x - x\<bar> = \<bar>of_int ?m - x * 2 powi ?k\<bar> * 2 powi (- ?k)"
    using p by (simp add: abs_mult)
  also have "\<dots> \<le> 1 / 2 * 2 powi (- ?k)"
    using round_ties_even_error [of "x * 2 powi ?k"] p by (intro mult_right_mono) simp_all
  also have "\<dots> = 2 powi floor_log2 x / 2 ^ 53"
    by (simp add: power_int_diff power_int_minus field_simps)
  also have "\<dots> \<le> x / 2 ^ 53"
    using floor_log2_bounds(1) [OF assms] by (simp add: divide_right_mono)
  finally show ?thesis .
qed

lemma to_double_upper:
  assumes "0 \<le> x"
  shows "to_double x \<le> x * (1 + 1 / 2 ^ 53)"
proof (cases "x = 0")
  case True
  then show ?thesis by (simp add: to_double_def)
next
  case False
  with assms have "0 < x" by simp
  from to_double_error [OF this] have "to_double x - x \<le> x / 2 ^ 53" by linarith
  then show ?thesis by (simp add: algebra_simps)
qed

lemma percent_range:
  assumes "c \<le> t" and "0 < t"
  shows "0 \<le> js_round (to_double (to_double (of_nat c / of_nat t) * 100))"
    and "js_round (to_double (to_double (of_nat c / of_nat t) * 100)) \<le> 100"
proof -
  let ?e = "(1 + 1 / 2 ^ 53) :: rat"
  let ?q = "to_double (of_nat c / of_nat t)"
  have x: "(0::rat) \<le> of_nat c / of_nat t" "(of_nat c / of_nat t :: rat) \<le> 1"
    using assms by simp_all
  have q0: "0 \<le> ?q" using x(1) by (rule to_double_nonneg)
  have "?q \<le> (of_nat c / of_nat t) * ?e" using x(1) by (rule to_double_upper)
  also have "\<dots> \<le> 1 * ?e" using x(2) by (intro mult_right_mono) simp_all
  finally have q1: "?q \<le> ?e" by simp
  have z0: "0 \<le> ?q * 100" using q0 by simp
  have d0: "0 \<le> to_double (?q * 100)" using z0 by (rule to_double_nonneg)
  have "to_double (?q * 100) \<le> (?q * 100) * ?e" using z0 by (rule to_double_upper)
  also have "\<dots> \<le> (?e * 100) * ?e" using q1 by (intro mult_right_mono) simp_all
  also have "\<dots> < 201 / 2" by simp
  finally have d1: "to_double (?q * 100) < 201 / 2" .
  show "0 \<le> js_round (to_double (?q * 100))"
    using d0 by (simp add: js_round_def)
  have "to_double (?q * 100) + 1 / 2 < 101" using d1 by simp
  then have "\<lfloor>to_double (?q * 100) + 1 / 2\<rfloor> < 101" by (simp add: floor_less_iff)
  then show "js_round (to_double (?q * 100)) \<le> 100" by (simp add: js_round_def)
qed

text \<open>The percentage of 184 correct characters out of 320 is 57.49999999999999 as a double.\<close>

lemma percent_184_of_320: "js_round (to_double (to_double (184 / 320) * 100)) = 57"
  by code_simp

text \<open>
  The guard \<open>totalChars > 0\<close> always holds: the typed input always splits into at least
  one word, and the first reference word, \<open>The\<close>, is counted with it, also for the empty
  input.
\<close>

lemma split_space_nonempty: "split_space s \<noteq> []"
  by (induction s) (simp_all split: list.splits)

lemma sample_first_word: "js_index (split_space SAMPLE_TEXT) 0 = Some (js ''The'')"
  by code_simp

lemma js_The: "js ''The'' \<noteq> [] \<and> length (js ''The'') = 3"
  by (simp add: js_def)

lemma accuracy_step_total_mono:
  "snd acc \<le> snd (accuracy_step words typedWords acc i)"
  by (simp add: accuracy_step_def split: option.splits)

lemma foldl_accuracy_step_total_mono:
  "snd acc \<le> snd (foldl (accuracy_step words typedWords) acc is)"
proof (induction "is" arbitrary: acc)
  case Nil
  then show ?case by simp
next
  case (Cons i "is")
  have "snd acc \<le> snd (accuracy_step words typedWords acc i)"
    by (rule accuracy_step_total_mono)
  also have "\<dots> \<le> snd (foldl (accuracy_step words typedWords)
      (accuracy_step words typedWords acc i) is)"
    by (rule Cons.IH)
  finally show ?case by simp
qed

lemma sample_text_total_positive:
  "3 \<le> snd (accuracy_counts (split_space SAMPLE_TEXT) (split_space (trim input)))"
proof -
  let ?tw = "split_space (trim input)"
  let ?w = "split_space SAMPLE_TEXT"
  have "0 < length ?tw" using split_space_nonempty [of "trim input"] by simp
  then have u: "[0..<length ?tw] = 0 # [1..<length ?tw]"
    by (simp add: upt_conv_Cons)
  have "snd (accuracy_step ?w ?tw (0, 0) 0) = 3"
    using js_The by (simp add: accuracy_step_def sample_first_word)
  then have "3 \<le> snd (foldl (accuracy_step ?w ?tw) (accuracy_step ?w ?tw (0, 0) 0)
      [1..<length ?tw])"
    using foldl_accuracy_step_total_mono
      [of "accuracy_step ?w ?tw (0, 0) 0" ?w ?tw "[1..<length ?tw]"]
    by simp
  then show ?thesis
    by (simp add: accuracy_counts_def u)
qed

subsection \<open>C10: accuracy\<close>

text \<open>
  C10, as stated, fails in its last part: with nothing typed, so that no reference
  character has been covered, the accuracy does not keep its initial value 100. The
  empty input still splits into one (empty) typed word, the first reference word is
  counted, and the accuracy is set to 0.
\<close>

theorem empty_input_accuracy_zero:
  "update_accuracy [] initial_accuracy = 0
   \<and> update_accuracy [] initial_accuracy \<noteq> initial_accuracy"
  by code_simp

text \<open>
  C10, amended: for every typed input and the fixed sample text, a typed character
  counts as correct only at a position inside the reference word where the two
  characters agree, so \<open>correctChars\<close> never exceeds \<open>totalChars\<close>; \<open>totalChars\<close> is always
  at least 3, so the accuracy is recomputed on every input, whatever value it had, and
  the new value is the rounded percentage, an integer between 0 and 100.
\<close>

theorem accuracy_recomputed_in_range:
  "(let counts = accuracy_counts (split_space SAMPLE_TEXT) (split_space (trim input));
        correctChars = fst counts;
        totalChars = snd counts
    in correctChars \<le> totalChars
       \<and> 3 \<le> totalChars
       \<and> update_accuracy input accuracy
           = js_round (to_double (to_double (of_nat correctChars / of_nat totalChars) * 100))
       \<and> update_accuracy input accuracy = update_accuracy input initial_accuracy
       \<and> 0 \<le> update_accuracy input accuracy
       \<and> update_accuracy input accuracy \<le> 100)
   \<and> count_correct typedWord word
       = card {j. j < length typedWord \<and> j < length word \<and> typedWord ! j = word ! j}
   \<and> count_correct typedWord word \<le> length word"
proof -
  let ?counts = "accuracy_counts (split_space SAMPLE_TEXT) (split_space (trim input))"
  have le: "fst ?counts \<le> snd ?counts" by (rule accuracy_counts_le)
  have three: "3 \<le> snd ?counts" by (rule sample_text_total_positive)
  then have pos: "0 < snd ?counts" by simp
  have val: "update_accuracy input a
      = js_round (to_double (to_double (of_nat (fst ?counts) / of_nat (snd ?counts)) * 100))"
    for a
    using pos by (simp add: update_accuracy_def Let_def case_prod_beta)
  have rng: "0 \<le> update_accuracy input accuracy \<and> update_accuracy input accuracy \<le> 100"
    using percent_range [OF le pos] by (simp add: val)
  have same: "update_accuracy input accuracy = update_accuracy input initial_accuracy"
    by (simp add: val)
  from le three val [of accuracy] same rng
    count_correct_card [of typedWord word] count_correct_le [of typedWord word]
  show ?thesis by (simp add: Let_def)
qed

text \<open>
  The input \<open>The earlx mor\<close> covers 15 reference characters and has 10 of them right:
  67 per cent. A no-break space before \<open>The\<close> is trimmed: 100 per cent.
\<close>

theorem accuracy_recomputed_in_range_witness:
  "accuracy_counts (split_space SAMPLE_TEXT) (split_space (trim (js ''The earlx mor'')))
      = (10, 15)
   \<and> update_accuracy (js ''The earlx mor'') initial_accuracy = 67
   \<and> update_accuracy (160 # js ''The'') initial_accuracy = 100"
proof -
  have c: "accuracy_counts (split_space SAMPLE_TEXT) (split_space (trim (js ''The earlx mor'')))
      = (10, 15)"
    by code_simp
  have r: "js_round (to_double (to_double (of_nat 10 / of_nat 15) * 100)) = 67"
    by code_simp
  from accuracy_recomputed_in_range [of "js ''The earlx mor''" initial_accuracy] c r
  have a: "update_accuracy (js ''The earlx mor'') initial_accuracy = 67"
    by (simp add: Let_def)
  have b: "update_accuracy (160 # js ''The'') initial_accuracy = 100"
    by code_simp
  from c a b show ?thesis by blast
qed

end
